theory Spec2Isabelle
  imports Complex_Main "HOL-Library.Char_ord" "HOL-Library.List_Lexorder"
begin

section \<open>Values, types and errors\<close>

text \<open>
  The client-side entry point \<^verbatim>\<open>SparkSession.createDataFrame\<close> of
  \<^verbatim>\<open>pyspark/sql/connect/session.py\<close> is embedded as a pure function that returns
  either the raised exception or the resulting data frame.

  Python values that can occur as items of the input collection. A \<^verbatim>\<open>dict\<close> is an
  association list in insertion order (its keys are field names, hence strings, and
  pairwise distinct); \<^verbatim>\<open>PRow\<close> is a \<^verbatim>\<open>pyspark.sql.Row\<close> with named fields (a tuple
  subclass); \<^verbatim>\<open>PObject\<close> is any other object, given by its \<^verbatim>\<open>__dict__\<close>.
\<close>

datatype pyval =
    PNone
  | PBool bool
  | PInt int
  | PFloat real
  | PStr string
  | PBytes string
  | PDict "(string \<times> pyval) list"
  | PTuple "pyval list"
  | PList "pyval list"
  | PRow "(string \<times> pyval) list"
  | PObject "(string \<times> pyval) list"

text \<open>
  The data types of \<^verbatim>\<open>pyspark.sql.types\<close>, as the closed variant of the data model: a
  struct field is a triple of name, type and nullability. \<^verbatim>\<open>Conflict\<close> is the explicit
  variant for a merge of two types that cannot be reconciled.
\<close>

datatype DataType =
    NullType
  | BooleanType
  | IntegerType nat
  | FloatType nat
  | StringType
  | BinaryType
  | TimestampType "string option"
  | ArrayType DataType
  | StructType "(string \<times> DataType \<times> bool) list"
  | Conflict

type_synonym StructField = "string \<times> DataType \<times> bool"

datatype error =
    TypeError string
  | ValueError string
  | IndexError string
  | AttributeError string
  | AssertionError string
  | CoercionError string
  | LibraryError string

text \<open>\<^verbatim>\<open>isinstance(t, StructType)\<close> and \<^verbatim>\<open>isinstance(t, AtomicType)\<close>: the atomic types are
  the scalar variants; the null type, arrays and structs are not atomic.\<close>

fun is_StructType :: "DataType \<Rightarrow> bool" where
  "is_StructType (StructType fs) = True"
| "is_StructType t = False"

fun is_AtomicType :: "DataType \<Rightarrow> bool" where
  "is_AtomicType BooleanType = True"
| "is_AtomicType (IntegerType w) = True"
| "is_AtomicType (FloatType w) = True"
| "is_AtomicType StringType = True"
| "is_AtomicType BinaryType = True"
| "is_AtomicType (TimestampType tz) = True"
| "is_AtomicType t = False"

fun struct_fields :: "DataType \<Rightarrow> StructField list" where
  "struct_fields (StructType fs) = fs"
| "struct_fields t = []"

definition fieldNames :: "DataType \<Rightarrow> string list" where
  "fieldNames t = map fst (struct_fields t)"

section \<open>Inputs and outputs of \<^verbatim>\<open>createDataFrame\<close>\<close>

text \<open>
  A NumPy array is its shape and its elements in row-major order; a pandas frame is its
  columns (label, whether the dtype is a datetime64 one, values) and its number of rows.
  An Arrow table is its column names and its columns; a cell \<^verbatim>\<open>PNone\<close> is a null.
\<close>

record ndarray =
  shape :: "nat list"
  elems :: "pyval list"

datatype label = LStr string | LInt int

record pdframe =
  pd_columns :: "(label \<times> bool \<times> pyval list) list"
  pd_len :: nat

record table =
  column_names :: "string list"
  columns :: "pyval list list"

text \<open>\<^verbatim>\<open>data\<close>: a Spark Connect \<^verbatim>\<open>DataFrame\<close>, a pandas frame, a NumPy array, or any other
  iterable, given by the items it yields and by whether it is \<^verbatim>\<open>Sized\<close> (a list or a
  tuple is, a generator is not).\<close>

datatype input =
    ConnectDataFrame
  | PandasDataFrame pdframe
  | NdArray ndarray
  | PyIterable bool "pyval list"

text \<open>\<^verbatim>\<open>schema\<close>: absent, a data type, a DDL string, or a list of column names.\<close>

datatype schema_arg =
    NoSchema
  | TypeSchema DataType
  | StrSchema string
  | NamesSchema "string list"

text \<open>The schema attached to the resulting plan: \<^verbatim>\<open>_schema.json()\<close> (represented by the
  type itself) or the schema string.\<close>

datatype schema_desc = JsonSchema DataType | DDLSchema string

text \<open>The result \<^verbatim>\<open>DataFrame.withPlan(LocalRelation(table, schema), self)\<close>, followed by
  \<^verbatim>\<open>.toDF(*_cols)\<close> when \<^verbatim>\<open>df_toDF\<close> is set.\<close>

record dataframe =
  df_table :: "table option"
  df_schema :: "schema_desc option"
  df_toDF :: "string list option"

text \<open>
  The functions that \<^verbatim>\<open>createDataFrame\<close> calls and that live outside \<^verbatim>\<open>session.py\<close>
  (\<^verbatim>\<open>pyspark.sql.types\<close>, \<^verbatim>\<open>pyspark.sql.connect.conversion\<close>,
  \<^verbatim>\<open>pyspark.sql.pandas\<close>, \<^verbatim>\<open>pyarrow\<close>) are parameters of the embedding; each may raise.
\<close>

record ext =
  infer_schema :: "pyval \<Rightarrow> string list option \<Rightarrow> error + DataType"
  merge_type :: "DataType \<Rightarrow> DataType \<Rightarrow> error + DataType"
  has_nulltype :: "DataType \<Rightarrow> bool"
  convert :: "pyval list \<Rightarrow> DataType \<Rightarrow> error + table"
  pa_array :: "pyval list \<Rightarrow> error + pyval list"
  to_arrow_type :: "DataType \<Rightarrow> error + DataType"
  create_batch :: "(pyval list \<times> DataType option) list \<Rightarrow> error + table"
  type_str :: "DataType \<Rightarrow> string"

section \<open>Python helpers\<close>

text \<open>\<^verbatim>\<open>str(n)\<close> for a natural number and for an integer.\<close>

definition digit :: "nat \<Rightarrow> char" where
  "digit d = ''0123456789'' ! d"

function str_nat :: "nat \<Rightarrow> string" where
  "str_nat n = (if n < 10 then [digit n] else str_nat (n div 10) @ [digit (n mod 10)])"
  by pat_completeness auto
termination
  by (relation "measure id") auto

declare str_nat.simps [simp del]

definition str_int :: "int \<Rightarrow> string" where
  "str_int i = (if i < 0 then CHR ''-'' # str_nat (nat (- i)) else str_nat (nat i))"

text \<open>A list comprehension over a function that may raise: the first exception wins.\<close>

fun mapM :: "('a \<Rightarrow> error + 'b) \<Rightarrow> 'a list \<Rightarrow> error + 'b list" where
  "mapM f [] = Inr []"
| "mapM f (x # xs) =
     (case f x of
        Inl e \<Rightarrow> Inl e
      | Inr y \<Rightarrow> (case mapM f xs of Inl e \<Rightarrow> Inl e | Inr ys \<Rightarrow> Inr (y # ys)))"

text \<open>\<^verbatim>\<open>pa.Table.from_arrays(arrays, names)\<close> and \<^verbatim>\<open>table.shape[1]\<close>.\<close>

definition from_arrays :: "pyval list list \<Rightarrow> string list \<Rightarrow> table" where
  "from_arrays arrays names = \<lparr>column_names = names, columns = arrays\<rparr>"

definition num_columns :: "table \<Rightarrow> nat" where
  "num_columns t = length (columns t)"

definition length_mismatch :: "nat \<Rightarrow> nat \<Rightarrow> error" where
  "length_mismatch expected new =
     ValueError (''Length mismatch: Expected axis has '' @ str_nat expected
       @ '' elements, new values have '' @ str_nat new @ '' elements'')"

definition length_mismatch_1 :: "nat \<Rightarrow> error" where
  "length_mismatch_1 new =
     ValueError (''Length mismatch: Expected axis has 1 element, new values have ''
       @ str_nat new @ '' elements'')"

section \<open>\<^verbatim>\<open>createDataFrame\<close>: the schema argument\<close>

text \<open>Lines 197--215: \<^verbatim>\<open>_schema\<close>, \<^verbatim>\<open>_schema_str\<close>, \<^verbatim>\<open>_cols\<close> and \<^verbatim>\<open>_num_cols\<close>.\<close>

definition schema_of :: "schema_arg \<Rightarrow> DataType option" where
  "schema_of s =
     (case s of
        TypeSchema t \<Rightarrow> if is_AtomicType t \<or> is_StructType t then Some t else None
      | _ \<Rightarrow> None)"

definition schema_str_of :: "schema_arg \<Rightarrow> string option" where
  "schema_str_of s = (case s of StrSchema d \<Rightarrow> Some d | _ \<Rightarrow> None)"

definition cols_of :: "schema_arg \<Rightarrow> string list option" where
  "cols_of s = (case s of NamesSchema ns \<Rightarrow> Some ns | _ \<Rightarrow> None)"

definition num_cols_of :: "schema_arg \<Rightarrow> nat option" where
  "num_cols_of s =
     (case s of
        TypeSchema t \<Rightarrow>
          if is_StructType t then Some (length (struct_fields t))
          else if is_AtomicType t then Some 1
          else None
      | NamesSchema ns \<Rightarrow> Some (length ns)
      | _ \<Rightarrow> None)"

text \<open>Line 217: \<^verbatim>\<open>isinstance(data, Sized) and len(data) == 0\<close>. A NumPy array is
  \<^verbatim>\<open>Sized\<close>; \<^verbatim>\<open>len\<close> of an array without axes raises.\<close>

fun sized_and_empty :: "input \<Rightarrow> error + bool" where
  "sized_and_empty ConnectDataFrame = Inr False"
| "sized_and_empty (PandasDataFrame df) = Inr (pd_len df = 0)"
| "sized_and_empty (NdArray a) =
     (case shape a of
        [] \<Rightarrow> Inl (TypeError ''len() of unsized object'')
      | n # _ \<Rightarrow> Inr (n = 0))"
| "sized_and_empty (PyIterable sized items) = Inr (sized \<and> items = [])"

section \<open>\<^verbatim>\<open>createDataFrame\<close>: building the table\<close>

text \<open>Lines 228--259, a pandas frame. The serializer and the Arrow conversion are
  external; the branch fixes the column names, the Arrow types and which columns are
  passed on (\<^verbatim>\<open>zip\<close> stops at the shorter list).\<close>

definition label_str :: "label \<Rightarrow> string" where
  "label_str l = (case l of LStr s \<Rightarrow> s | LInt i \<Rightarrow> str_int i)"

definition timestamp_coercion :: "ext \<Rightarrow> label \<times> bool \<times> pyval list \<Rightarrow> error + DataType option" where
  "timestamp_coercion ex c =
     (if fst (snd c) then
        (case to_arrow_type ex (TimestampType None) of Inl e \<Rightarrow> Inl e | Inr t \<Rightarrow> Inr (Some t))
      else Inr None)"

definition pandas_batch :: "ext \<Rightarrow> pdframe \<Rightarrow> DataType option list \<Rightarrow> error + table" where
  "pandas_batch ex df arrow_types =
     create_batch ex (zip (map (\<lambda>c. snd (snd c)) (pd_columns df)) arrow_types)"

definition from_pandas ::
  "ext \<Rightarrow> pdframe \<Rightarrow> schema_arg \<Rightarrow> string list option \<Rightarrow> error + table \<times> string list option" where
  "from_pandas ex df schema cols0 =
     (let cols1 = (if schema = NoSchema then Some (map (\<lambda>c. label_str (fst c)) (pd_columns df))
                   else cols0)
      in case schema of
           TypeSchema t \<Rightarrow>
             if is_StructType t then
               (case mapM (to_arrow_type ex) (map (\<lambda>f. fst (snd f)) (struct_fields t)) of
                  Inl e \<Rightarrow> Inl e
                | Inr ats \<Rightarrow>
                    (case pandas_batch ex df (map Some ats) of
                       Inl e \<Rightarrow> Inl e
                     | Inr tbl \<Rightarrow> Inr (tbl, Some (fieldNames t))))
             else Inl (ValueError (''Single data type '' @ type_str ex t
                         @ '' is not supported with Arrow''))
         | _ \<Rightarrow>
             (case mapM (timestamp_coercion ex) (pd_columns df) of
                Inl e \<Rightarrow> Inl e
              | Inr ats \<Rightarrow>
                  (case pandas_batch ex df ats of
                     Inl e \<Rightarrow> Inl e
                   | Inr tbl \<Rightarrow> Inr (tbl, cols1))))"

text \<open>Lines 261--288, a NumPy array. \<^verbatim>\<open>data[::, i]\<close> is column \<open>i\<close> of a
  two-dimensional array.\<close>

definition array_column :: "ndarray \<Rightarrow> nat \<Rightarrow> pyval list" where
  "array_column a i = map (\<lambda>r. elems a ! (r * (shape a ! 1) + i)) [0..<shape a ! 0]"

definition default_array_cols :: "ndarray \<Rightarrow> string list" where
  "default_array_cols a =
     (if length (shape a) = 1 \<or> shape a ! 1 = 1 then [''value'']
      else map (\<lambda>i. ''_'' @ str_nat i) [1..<shape a ! 1 + 1])"

definition from_ndarray ::
  "ext \<Rightarrow> ndarray \<Rightarrow> string list option \<Rightarrow> error + table \<times> string list option" where
  "from_ndarray ex a cols0 =
     (if length (shape a) \<noteq> 1 \<and> length (shape a) \<noteq> 2 then
        Inl (ValueError ''NumPy array input should be of 1 or 2 dimensions.'')
      else
        let cols = (case cols0 of None \<Rightarrow> default_array_cols a | Some c \<Rightarrow> c) in
        if length (shape a) = 1 then
          if 1 \<noteq> length cols then Inl (length_mismatch_1 (length cols))
          else
            (case pa_array ex (elems a) of
               Inl e \<Rightarrow> Inl e
             | Inr c \<Rightarrow> Inr (from_arrays [c] cols, Some cols))
        else
          if shape a ! 1 \<noteq> length cols then Inl (length_mismatch (shape a ! 1) (length cols))
          else
            (case mapM (\<lambda>i. pa_array ex (array_column a i)) [0..<shape a ! 1] of
               Inl e \<Rightarrow> Inl e
             | Inr cs \<Rightarrow> Inr (from_arrays cs cols, Some cols)))"

text \<open>Lines 293--303, the normalisation of the rows, decided by the first item alone:
  dictionaries are rebuilt with their items sorted, bare scalars are wrapped into
  one-element lists, anything else is left as it is.\<close>

fun is_dict :: "pyval \<Rightarrow> bool" where
  "is_dict (PDict kvs) = True"
| "is_dict v = False"

text \<open>\<^verbatim>\<open>isinstance(v, (Row, tuple, list, dict)) or hasattr(v, "__dict__")\<close>\<close>

fun is_row_like :: "pyval \<Rightarrow> bool" where
  "is_row_like (PDict kvs) = True"
| "is_row_like (PTuple vs) = True"
| "is_row_like (PList vs) = True"
| "is_row_like (PRow kvs) = True"
| "is_row_like (PObject kvs) = True"
| "is_row_like v = False"

text \<open>\<^verbatim>\<open>dict(sorted(d.items()))\<close>; an item without \<^verbatim>\<open>items\<close> raises.\<close>

fun sort_dict :: "pyval \<Rightarrow> error + pyval" where
  "sort_dict (PDict kvs) = Inr (PDict (sort_key fst kvs))"
| "sort_dict v = Inl (AttributeError ''object has no attribute 'items' '')"

definition normalize_rows :: "pyval list \<Rightarrow> error + pyval list" where
  "normalize_rows items =
     (case items of
        [] \<Rightarrow> Inl (IndexError ''list index out of range'')
      | first # rest \<Rightarrow>
          if is_dict first then mapM sort_dict items
          else if \<not> is_row_like first then Inr (map (\<lambda>d. PList [d]) items)
          else Inr items)"

text \<open>Lines 157--186, \<^verbatim>\<open>_inferSchemaFromList\<close>: \<^verbatim>\<open>reduce(_merge_type, ...)\<close> over the
  lazily inferred row types, from the left and without an initial value.\<close>

fun reduce_merge :: "ext \<Rightarrow> string list option \<Rightarrow> DataType \<Rightarrow> pyval list \<Rightarrow> error + DataType" where
  "reduce_merge ex names acc [] = Inr acc"
| "reduce_merge ex names acc (row # rows) =
     (case infer_schema ex row names of
        Inl e \<Rightarrow> Inl e
      | Inr t \<Rightarrow>
          (case merge_type ex acc t of
             Inl e \<Rightarrow> Inl e
           | Inr acc' \<Rightarrow> reduce_merge ex names acc' rows))"

definition inferSchemaFromList :: "ext \<Rightarrow> pyval list \<Rightarrow> string list option \<Rightarrow> error + DataType" where
  "inferSchemaFromList ex data names =
     (case data of
        [] \<Rightarrow> Inl (ValueError ''can not infer schema from empty dataset'')
      | row # rows \<Rightarrow>
          (case infer_schema ex row names of
             Inl e \<Rightarrow> Inl e
           | Inr t \<Rightarrow> reduce_merge ex names t rows))"

text \<open>Lines 305--323: inference, the fallback to a supplied struct schema when the
  inferred schema has a null type, and the conversion to Arrow.\<close>

definition resolve_schema :: "ext \<Rightarrow> DataType \<Rightarrow> DataType option \<Rightarrow> error + DataType" where
  "resolve_schema ex inferred sch =
     (if has_nulltype ex inferred then
        (case sch of
           None \<Rightarrow> Inl (ValueError (''Some of types cannot be determined after inferring, ''
                          @ ''a StructType Schema is required in this case''))
         | Some s \<Rightarrow>
             if \<not> is_StructType s then
               Inl (ValueError (''Some of types cannot be determined after inferring, ''
                      @ ''a StructType Schema is required in this case''))
             else Inr s)
      else Inr inferred)"

definition from_rows ::
  "ext \<Rightarrow> pyval list \<Rightarrow> string list option \<Rightarrow> DataType option \<Rightarrow> error + table \<times> string list option" where
  "from_rows ex items cols0 sch =
     (case normalize_rows items of
        Inl e \<Rightarrow> Inl e
      | Inr rows \<Rightarrow>
          (case inferSchemaFromList ex rows cols0 of
             Inl e \<Rightarrow> Inl e
           | Inr inferred \<Rightarrow>
               (case resolve_schema ex inferred sch of
                  Inl e \<Rightarrow> Inl e
                | Inr s \<Rightarrow>
                    (case convert ex rows s of
                       Inl e \<Rightarrow> Inl e
                     | Inr tbl \<Rightarrow> Inr (tbl, cols0)))))"

definition build_table ::
  "ext \<Rightarrow> input \<Rightarrow> schema_arg \<Rightarrow> error + table \<times> string list option" where
  "build_table ex data schema =
     (case data of
        PandasDataFrame df \<Rightarrow> from_pandas ex df schema (cols_of schema)
      | NdArray a \<Rightarrow> from_ndarray ex a (cols_of schema)
      | PyIterable sized items \<Rightarrow> from_rows ex items (cols_of schema) (schema_of schema)
      | ConnectDataFrame \<Rightarrow> Inl (TypeError ''data is already a DataFrame''))"

section \<open>\<^verbatim>\<open>createDataFrame\<close>: the result\<close>

text \<open>Lines 217--223, the empty input.\<close>

definition empty_result :: "schema_arg \<Rightarrow> error + dataframe" where
  "empty_result schema =
     (case schema_of schema of
        Some s \<Rightarrow> Inr \<lparr>df_table = None, df_schema = Some (JsonSchema s), df_toDF = None\<rparr>
      | None \<Rightarrow>
          (case schema_str_of schema of
             Some d \<Rightarrow> Inr \<lparr>df_table = None, df_schema = Some (DDLSchema d), df_toDF = None\<rparr>
           | None \<Rightarrow> Inl (ValueError ''can not infer schema from empty dataset'')))"

text \<open>Lines 327--340, the check of the number of columns and the plan returned.\<close>

definition result_frame :: "schema_arg \<Rightarrow> table \<Rightarrow> string list option \<Rightarrow> dataframe" where
  "result_frame schema tbl cols =
     (case schema_of schema of
        Some s \<Rightarrow> \<lparr>df_table = Some tbl, df_schema = Some (JsonSchema s), df_toDF = None\<rparr>
      | None \<Rightarrow>
          (case schema_str_of schema of
             Some d \<Rightarrow> \<lparr>df_table = Some tbl, df_schema = Some (DDLSchema d), df_toDF = None\<rparr>
           | None \<Rightarrow>
               (case cols of
                  Some cs \<Rightarrow>
                    if length cs > 0 then
                      \<lparr>df_table = Some tbl, df_schema = None, df_toDF = Some cs\<rparr>
                    else \<lparr>df_table = Some tbl, df_schema = None, df_toDF = None\<rparr>
                | None \<Rightarrow> \<lparr>df_table = Some tbl, df_schema = None, df_toDF = None\<rparr>)))"

definition finish :: "schema_arg \<Rightarrow> table \<Rightarrow> string list option \<Rightarrow> error + dataframe" where
  "finish schema tbl cols =
     (case num_cols_of schema of
        Some n \<Rightarrow>
          if n \<noteq> num_columns tbl then Inl (length_mismatch n (num_columns tbl))
          else Inr (result_frame schema tbl cols)
      | None \<Rightarrow> Inr (result_frame schema tbl cols))"

definition createDataFrame :: "ext \<Rightarrow> input \<Rightarrow> schema_arg \<Rightarrow> error + dataframe" where
  "createDataFrame ex data schema =
     (if data = ConnectDataFrame then Inl (TypeError ''data is already a DataFrame'')
      else
        (case sized_and_empty data of
           Inl e \<Rightarrow> Inl e
         | Inr True \<Rightarrow> empty_result schema
         | Inr False \<Rightarrow>
             (case build_table ex data schema of
                Inl e \<Rightarrow> Inl e
              | Inr (tbl, cols) \<Rightarrow> finish schema tbl cols)))"

section \<open>The helpers outside \<^verbatim>\<open>session.py\<close>, modelled from the specification\<close>

text \<open>
  Modelled from the spec: \<^verbatim>\<open>_merge_type\<close> of \<^verbatim>\<open>pyspark.sql.types\<close> is not among the
  sources. Section 4.3: the null type is absorbed on either side; two integers merge to
  the wider one; an integer and a float merge to the float (in either order, the
  operation being commutative in effect); arrays merge element-wise; structs merge by
  field name, the fields of the first struct first and the new fields of the second
  after them; any other pair that disagrees falls through to the explicit conflict
  variant (section 9). A field present on one side only becomes nullable; a field
  present on both sides is nullable when either one is or when a null type was absorbed.
\<close>

fun merge :: "DataType \<Rightarrow> DataType \<Rightarrow> DataType" where
  "merge NullType b = b"
| "merge (IntegerType w1) b =
     (case b of
        NullType \<Rightarrow> IntegerType w1
      | IntegerType w2 \<Rightarrow> IntegerType (max w1 w2)
      | FloatType w2 \<Rightarrow> FloatType w2
      | _ \<Rightarrow> Conflict)"
| "merge (FloatType w1) b =
     (case b of
        NullType \<Rightarrow> FloatType w1
      | IntegerType w2 \<Rightarrow> FloatType w1
      | FloatType w2 \<Rightarrow> if w1 = w2 then FloatType w1 else Conflict
      | _ \<Rightarrow> Conflict)"
| "merge (ArrayType a) b =
     (case b of
        NullType \<Rightarrow> ArrayType a
      | ArrayType b' \<Rightarrow> ArrayType (merge a b')
      | _ \<Rightarrow> Conflict)"
| "merge (StructType fs) b =
     (case b of
        NullType \<Rightarrow> StructType fs
      | StructType gs \<Rightarrow>
          StructType
            (map (\<lambda>f. case map_of gs (fst f) of
                         None \<Rightarrow> (fst f, fst (snd f), True)
                       | Some g \<Rightarrow>
                           (fst f, merge (fst (snd f)) (fst g),
                            snd (snd f) \<or> snd g \<or> fst (snd f) = NullType \<or> fst g = NullType)) fs
             @ map (\<lambda>g. (fst g, fst (snd g), True))
                 (filter (\<lambda>g. fst g \<notin> set (map fst fs)) gs))
      | _ \<Rightarrow> Conflict)"
| "merge a b = (if b = NullType \<or> b = a then a else Conflict)"

text \<open>The two ways a field enters a merged struct, and the merged field list.\<close>

definition merge_field :: "StructField list \<Rightarrow> StructField \<Rightarrow> StructField" where
  "merge_field gs f =
     (case map_of gs (fst f) of
        None \<Rightarrow> (fst f, fst (snd f), True)
      | Some g \<Rightarrow>
          (fst f, merge (fst (snd f)) (fst g),
           snd (snd f) \<or> snd g \<or> fst (snd f) = NullType \<or> fst g = NullType))"

definition absent_field :: "StructField \<Rightarrow> StructField" where
  "absent_field g = (fst g, fst (snd g), True)"

definition merge_fields :: "StructField list \<Rightarrow> StructField list \<Rightarrow> StructField list" where
  "merge_fields fs gs =
     map (merge_field gs) fs @ map absent_field (filter (\<lambda>g. fst g \<notin> set (map fst fs)) gs)"

text \<open>
  Modelled from the spec: \<^verbatim>\<open>_infer_schema\<close> of \<^verbatim>\<open>pyspark.sql.types\<close> is not among the
  sources. Section 4.2: an integer infers to the narrowest signed width (8, 16, 32 or 64
  bits) that fits it, a float to the double width, strings, booleans and binary map
  directly, \<^verbatim>\<open>None\<close> infers to the null type, nested mappings and named records recurse
  into structs and nested sequences into arrays. A row that is a mapping or a named
  record gives a struct with its own field names in its own order; a positional row
  takes the supplied names position by position and synthesized names \<^verbatim>\<open>_1\<close>, \<^verbatim>\<open>_2\<close>, ...
  where none is supplied; a bare scalar gives its atomic type.
\<close>

definition int_width :: "int \<Rightarrow> nat" where
  "int_width n =
     (if - 128 \<le> n \<and> n < 128 then 8
      else if - 32768 \<le> n \<and> n < 32768 then 16
      else if - 2147483648 \<le> n \<and> n < 2147483648 then 32
      else 64)"

fun infer_type :: "pyval \<Rightarrow> DataType" where
  "infer_type PNone = NullType"
| "infer_type (PBool b) = BooleanType"
| "infer_type (PInt n) = IntegerType (int_width n)"
| "infer_type (PFloat x) = FloatType 64"
| "infer_type (PStr s) = StringType"
| "infer_type (PBytes s) = BinaryType"
| "infer_type (PDict kvs) =
     StructType (map (\<lambda>kv. (fst kv, infer_type (snd kv), snd kv = PNone)) kvs)"
| "infer_type (PRow kvs) =
     StructType (map (\<lambda>kv. (fst kv, infer_type (snd kv), snd kv = PNone)) kvs)"
| "infer_type (PObject kvs) =
     StructType (map (\<lambda>kv. (fst kv, infer_type (snd kv), snd kv = PNone)) kvs)"
| "infer_type (PTuple vs) = ArrayType (foldl merge NullType (map infer_type vs))"
| "infer_type (PList vs) = ArrayType (foldl merge NullType (map infer_type vs))"

definition positional_name :: "string list option \<Rightarrow> nat \<Rightarrow> string" where
  "positional_name names i =
     (case names of
        None \<Rightarrow> ''_'' @ str_nat (i + 1)
      | Some ns \<Rightarrow> if i < length ns then ns ! i else ''_'' @ str_nat (i + 1))"

definition positional_fields :: "string list option \<Rightarrow> pyval list \<Rightarrow> StructField list" where
  "positional_fields names vs =
     map (\<lambda>i. (positional_name names i, infer_type (vs ! i), vs ! i = PNone)) [0..<length vs]"

fun infer_row :: "pyval \<Rightarrow> string list option \<Rightarrow> DataType" where
  "infer_row (PTuple vs) names = StructType (positional_fields names vs)"
| "infer_row (PList vs) names = StructType (positional_fields names vs)"
| "infer_row v names = infer_type v"

text \<open>
  Modelled from the spec: \<^verbatim>\<open>_has_nulltype\<close> of \<^verbatim>\<open>pyspark.sql.types\<close> is not among the
  sources. Section 4.5 and the design notes: a schema is undetermined when a null type or
  a conflict is left anywhere in it.
\<close>

fun has_null :: "DataType \<Rightarrow> bool" where
  "has_null NullType = True"
| "has_null Conflict = True"
| "has_null (ArrayType t) = has_null t"
| "has_null (StructType fs) = list_ex (\<lambda>f. has_null (fst (snd f))) fs"
| "has_null t = False"

text \<open>
  Modelled from the spec: \<^verbatim>\<open>LocalDataToArrowConversion.convert\<close> of
  \<^verbatim>\<open>pyspark.sql.connect.conversion\<close> is not among the sources. Section 4.4: one column
  per field of the struct schema, holding for every row the value addressed by the
  field's name (or by its position in a positional row), a null where the value is
  \<^verbatim>\<open>None\<close> or absent whatever the field's nullability, integers widened to the field's
  width and to floats, nested structs and arrays materialized recursively. Section 7: a
  value that cannot be cast to the type of its field is a coercion error.
\<close>

fun row_value :: "pyval \<Rightarrow> nat \<Rightarrow> string \<Rightarrow> pyval" where
  "row_value (PDict kvs) i n = (case map_of kvs n of None \<Rightarrow> PNone | Some v \<Rightarrow> v)"
| "row_value (PRow kvs) i n = (case map_of kvs n of None \<Rightarrow> PNone | Some v \<Rightarrow> v)"
| "row_value (PObject kvs) i n = (case map_of kvs n of None \<Rightarrow> PNone | Some v \<Rightarrow> v)"
| "row_value (PTuple vs) i n = (if i < length vs then vs ! i else PNone)"
| "row_value (PList vs) i n = (if i < length vs then vs ! i else PNone)"
| "row_value v i n = PNone"

definition fits :: "nat \<Rightarrow> int \<Rightarrow> bool" where
  "fits w n = (- (2 ^ (w - 1)) \<le> n \<and> n < 2 ^ (w - 1))"

definition coercion_error :: error where
  "coercion_error = CoercionError ''value cannot be cast to the type of its field''"

fun coerce :: "DataType \<Rightarrow> pyval \<Rightarrow> error + pyval"
  and coerce_fields :: "StructField list \<Rightarrow> nat \<Rightarrow> pyval \<Rightarrow> error + (string \<times> pyval) list" where
  "coerce NullType v = (case v of PNone \<Rightarrow> Inr PNone | _ \<Rightarrow> Inl coercion_error)"
| "coerce BooleanType v =
     (case v of PNone \<Rightarrow> Inr PNone | PBool b \<Rightarrow> Inr (PBool b) | _ \<Rightarrow> Inl coercion_error)"
| "coerce (IntegerType w) v =
     (case v of
        PNone \<Rightarrow> Inr PNone
      | PInt n \<Rightarrow> if fits w n then Inr (PInt n) else Inl coercion_error
      | _ \<Rightarrow> Inl coercion_error)"
| "coerce (FloatType w) v =
     (case v of
        PNone \<Rightarrow> Inr PNone
      | PInt n \<Rightarrow> Inr (PFloat (of_int n))
      | PFloat x \<Rightarrow> Inr (PFloat x)
      | _ \<Rightarrow> Inl coercion_error)"
| "coerce StringType v =
     (case v of PNone \<Rightarrow> Inr PNone | PStr s \<Rightarrow> Inr (PStr s) | _ \<Rightarrow> Inl coercion_error)"
| "coerce BinaryType v =
     (case v of PNone \<Rightarrow> Inr PNone | PBytes s \<Rightarrow> Inr (PBytes s) | _ \<Rightarrow> Inl coercion_error)"
| "coerce (TimestampType tz) v = (case v of PNone \<Rightarrow> Inr PNone | _ \<Rightarrow> Inl coercion_error)"
| "coerce (ArrayType t) v =
     (case v of
        PNone \<Rightarrow> Inr PNone
      | PList vs \<Rightarrow> (case mapM (coerce t) vs of Inl e \<Rightarrow> Inl e | Inr cs \<Rightarrow> Inr (PList cs))
      | PTuple vs \<Rightarrow> (case mapM (coerce t) vs of Inl e \<Rightarrow> Inl e | Inr cs \<Rightarrow> Inr (PList cs))
      | _ \<Rightarrow> Inl coercion_error)"
| "coerce (StructType fs) v =
     (if v = PNone then Inr PNone
      else if is_row_like v then
        (case coerce_fields fs 0 v of Inl e \<Rightarrow> Inl e | Inr kcs \<Rightarrow> Inr (PDict kcs))
      else Inl coercion_error)"
| "coerce Conflict v = (case v of PNone \<Rightarrow> Inr PNone | _ \<Rightarrow> Inl coercion_error)"
| "coerce_fields [] i v = Inr []"
| "coerce_fields (f # fs) i v =
     (case coerce (fst (snd f)) (row_value v i (fst f)) of
        Inl e \<Rightarrow> Inl e
      | Inr c \<Rightarrow>
          (case coerce_fields fs (Suc i) v of
             Inl e \<Rightarrow> Inl e
           | Inr cs \<Rightarrow> Inr ((fst f, c) # cs)))"

definition materialize_column :: "pyval list \<Rightarrow> nat \<Rightarrow> StructField \<Rightarrow> error + pyval list" where
  "materialize_column rows i f = mapM (\<lambda>row. coerce (fst (snd f)) (row_value row i (fst f))) rows"

fun materialize_columns :: "pyval list \<Rightarrow> nat \<Rightarrow> StructField list \<Rightarrow> error + pyval list list" where
  "materialize_columns rows i [] = Inr []"
| "materialize_columns rows i (f # fs) =
     (case materialize_column rows i f of
        Inl e \<Rightarrow> Inl e
      | Inr c \<Rightarrow>
          (case materialize_columns rows (Suc i) fs of
             Inl e \<Rightarrow> Inl e
           | Inr cs \<Rightarrow> Inr (c # cs)))"

definition materialize :: "pyval list \<Rightarrow> DataType \<Rightarrow> error + table" where
  "materialize rows schema =
     (case schema of
        StructType fs \<Rightarrow>
          (case materialize_columns rows 0 fs of
             Inl e \<Rightarrow> Inl e
           | Inr cs \<Rightarrow> Inr (from_arrays cs (map fst fs)))
      | _ \<Rightarrow> Inl (AssertionError ''the schema is not a StructType''))"

text \<open>
  The embedding run with the helpers above. The Arrow and pandas helpers of this instance
  keep the values and the types as they are and number the columns of a batch; they
  only serve to run \<^verbatim>\<open>createDataFrame\<close> on concrete inputs.
\<close>

definition spec_ext :: ext where
  "spec_ext =
     \<lparr>infer_schema = (\<lambda>row names. Inr (infer_row row names)),
      merge_type = (\<lambda>a b. Inr (merge a b)),
      has_nulltype = has_null,
      convert = materialize,
      pa_array = Inr,
      to_arrow_type = Inr,
      create_batch = (\<lambda>cs. Inr (from_arrays (map fst cs) (map (\<lambda>i. ''_'' @ str_nat i) [0..<length cs]))),
      type_str = (\<lambda>t. ''DataType'')\<rparr>"

section \<open>Properties of \<^verbatim>\<open>createDataFrame\<close>\<close>

text \<open>
  C10. When the data passed to \<^verbatim>\<open>createDataFrame\<close> is already a \<^verbatim>\<open>DataFrame\<close>, the call
  raises \<^verbatim>\<open>TypeError("data is already a DataFrame")\<close>, whatever the schema argument and
  whatever the external functions do: none of them is reached.
\<close>

theorem createDataFrame_rejects_DataFrame:
  "createDataFrame ex ConnectDataFrame schema = Inl (TypeError ''data is already a DataFrame'')"
  by (simp add: createDataFrame_def)

text \<open>
  C8 (as amended). An array whose first axis is not empty and whose number of dimensions
  is neither 1 nor 2 is rejected with \<^verbatim>\<open>ValueError("NumPy array input should be of 1 or 2
  dimensions.")\<close>, for every schema argument and before any column is built: the result
  does not depend on the external functions. An array whose first axis is empty takes
  the branch of the empty input first.
\<close>

theorem ndarray_bad_dimensions:
  assumes "shape a = n # rest" and "0 < n" and "length (shape a) \<noteq> 1" and "length (shape a) \<noteq> 2"
  shows "createDataFrame ex (NdArray a) schema
       = Inl (ValueError ''NumPy array input should be of 1 or 2 dimensions.'')"
  using assms by (simp add: createDataFrame_def build_table_def from_ndarray_def)

theorem ndarray_bad_dimensions_witness:
  "createDataFrame spec_ext (NdArray \<lparr>shape = [1, 1, 1], elems = [PInt 7]\<rparr>) NoSchema
     = Inl (ValueError ''NumPy array input should be of 1 or 2 dimensions.'')"
  using ndarray_bad_dimensions[of "\<lparr>shape = [1, 1, 1], elems = [PInt 7]\<rparr>" 1 "[1, 1]" spec_ext NoSchema]
  by simp

text \<open>The claim as stated fails on a three-dimensional array of shape \<open>(0, 2, 2)\<close> passed
  with a struct schema: it is an empty input, and the call succeeds.\<close>

theorem ndarray_bad_dimensions_counterexample:
  "createDataFrame spec_ext (NdArray \<lparr>shape = [0, 2, 2], elems = []\<rparr>)
       (TypeSchema (StructType [(''a'', IntegerType 32, True)]))
     = Inr \<lparr>df_table = None, df_schema = Some (JsonSchema (StructType [(''a'', IntegerType 32, True)])),
            df_toDF = None\<rparr>"
  by (simp add: createDataFrame_def empty_result_def schema_of_def)

text \<open>
  C7 (as amended). For a one- or two-dimensional array whose first axis is not empty and
  a supplied list of column names whose length differs from the number of columns of the
  array (1 for one dimension, the length of the second axis for two), the call raises the
  length-mismatch \<^verbatim>\<open>ValueError\<close>, before any column is built.
\<close>

theorem ndarray_names_mismatch:
  assumes "shape a = n # rest" and "0 < n" and "rest = [] \<or> rest = [m]"
    and "length names \<noteq> (if rest = [] then 1 else m)"
  shows "createDataFrame ex (NdArray a) (NamesSchema names)
       = Inl (if rest = [] then length_mismatch_1 (length names)
              else length_mismatch m (length names))"
  using assms
  by (auto simp: createDataFrame_def build_table_def from_ndarray_def cols_of_def)

theorem ndarray_names_mismatch_witness:
  "createDataFrame spec_ext (NdArray \<lparr>shape = [3, 2], elems = map PInt [1, 2, 3, 4, 5, 6]\<rparr>)
       (NamesSchema [''a''])
     = Inl (ValueError ''Length mismatch: Expected axis has 2 elements, new values have 1 elements'')"
  using ndarray_names_mismatch[of "\<lparr>shape = [3, 2], elems = map PInt [1, 2, 3, 4, 5, 6]\<rparr>" 3 "[2]" 2 "[''a'']" spec_ext]
  by (simp add: length_mismatch_def str_nat.simps digit_def)

text \<open>The claim as stated fails on an array of shape \<open>(0, 2)\<close> passed with one name: the
  error raised is the one of the empty input, not a length mismatch.\<close>

theorem ndarray_names_mismatch_counterexample:
  "createDataFrame spec_ext (NdArray \<lparr>shape = [0, 2], elems = []\<rparr>) (NamesSchema [''a''])
     = Inl (ValueError ''can not infer schema from empty dataset'')"
  by (simp add: createDataFrame_def empty_result_def schema_of_def schema_str_of_def)

lemma mapM_length: "mapM f xs = Inr ys \<Longrightarrow> length ys = length xs"
  by (induction xs arbitrary: ys) (auto split: sum.splits)

text \<open>
  C5 (as amended). For an array whose first axis is not empty and no supplied column
  names, whenever the call returns a data frame its table has one column named
  \<^verbatim>\<open>value\<close> when the array is one-dimensional or has a second axis of length 1, and
  otherwise the columns \<^verbatim>\<open>_1\<close> to \<^verbatim>\<open>_N\<close> for the length \<open>N\<close> of the second axis; with no
  schema at all the data frame is renamed to those names.
\<close>

theorem ndarray_default_names:
  assumes "shape a = n # rest" and "0 < n" and "cols_of schema = None"
    and "createDataFrame ex (NdArray a) schema = Inr df"
  shows "\<exists>tbl. df_table df = Some tbl
           \<and> column_names tbl =
               (if rest = [] \<or> hd rest = 1 then [''value'']
                else map (\<lambda>i. ''_'' @ str_nat i) [1..<hd rest + 1])
           \<and> num_columns tbl = (if rest = [] then 1 else hd rest)
           \<and> (schema = NoSchema \<longrightarrow>
                df_toDF df = (if rest \<noteq> [] \<and> hd rest = 0 then None else Some (column_names tbl)))"
proof -
  from assms obtain tbl cols where b: "from_ndarray ex a None = Inr (tbl, cols)"
    and f: "finish schema tbl cols = Inr df"
    by (auto simp: createDataFrame_def build_table_def split: sum.splits)
  have ndim: "length (shape a) = 1 \<or> length (shape a) = 2"
    using b by (auto simp: from_ndarray_def split: if_splits)
  have names: "column_names tbl = default_array_cols a \<and> cols = Some (default_array_cols a)
      \<and> num_columns tbl = (if length (shape a) = 1 then 1 else shape a ! 1)"
    using b ndim
    by (auto simp: from_ndarray_def from_arrays_def num_columns_def Let_def
          dest: mapM_length split: if_splits sum.splits)
  consider (one) "rest = []" | (two) m where "rest = [m]"
    using ndim assms(1) by (cases rest) auto
  then have d: "default_array_cols a =
        (if rest = [] \<or> hd rest = 1 then [''value'']
         else map (\<lambda>i. ''_'' @ str_nat i) [1..<hd rest + 1])
      \<and> (if length (shape a) = 1 then 1 else shape a ! 1) = (if rest = [] then 1 else hd rest)"
  proof cases
    case one
    then show ?thesis using assms(1) by (simp add: default_array_cols_def)
  next
    case two
    then show ?thesis using assms(1) by (simp add: default_array_cols_def)
  qed
  have df: "df = result_frame schema tbl cols"
    using f by (auto simp: finish_def split: option.splits if_splits)
  have t: "df_table df = Some tbl"
    unfolding df by (simp add: result_frame_def split: option.splits)
  have n: "schema = NoSchema \<Longrightarrow>
      df_toDF df = (if rest \<noteq> [] \<and> hd rest = 0 then None else Some (column_names tbl))"
    unfolding df using names d
    by (auto simp: result_frame_def schema_of_def schema_str_of_def)
  show ?thesis using t names d n by auto
qed

theorem ndarray_default_names_witness:
  "createDataFrame spec_ext (NdArray \<lparr>shape = [3, 2], elems = map PInt [1, 2, 3, 4, 5, 6]\<rparr>) NoSchema
     = Inr \<lparr>df_table = Some \<lparr>column_names = [''_1'', ''_2''],
                              columns = [[PInt 1, PInt 3, PInt 5], [PInt 2, PInt 4, PInt 6]]\<rparr>,
            df_schema = None, df_toDF = Some [''_1'', ''_2'']\<rparr>
   \<and> map (\<lambda>i. ''_'' @ str_nat i) [1..<hd [2::nat] + 1] = [''_1'', ''_2'']"
proof -
  let ?a = "\<lparr>shape = [3, 2], elems = map PInt [1, 2, 3, 4, 5, 6]\<rparr>"
  let ?df = "\<lparr>df_table = Some \<lparr>column_names = [''_1'', ''_2''],
                              columns = [[PInt 1, PInt 3, PInt 5], [PInt 2, PInt 4, PInt 6]]\<rparr>,
            df_schema = None, df_toDF = Some [''_1'', ''_2'']\<rparr>"
  have run: "createDataFrame spec_ext (NdArray ?a) NoSchema = Inr ?df"
    by (simp add: createDataFrame_def build_table_def from_ndarray_def cols_of_def spec_ext_def
      default_array_cols_def array_column_def from_arrays_def finish_def result_frame_def
      num_cols_of_def schema_of_def schema_str_of_def str_nat.simps digit_def upt_rec Let_def)
  have s: "shape ?a = 3 # [2]" and n: "(0::nat) < 3" and c: "cols_of NoSchema = None"
    by (simp_all add: cols_of_def)
  from ndarray_default_names[OF s n c run] run show ?thesis
    by auto
qed

text \<open>The claim as stated fails on a two-dimensional array of shape \<open>(3, 1)\<close>: its column is
  named \<^verbatim>\<open>value\<close>, not \<^verbatim>\<open>_1\<close>.\<close>

theorem ndarray_default_names_counterexample:
  "createDataFrame spec_ext (NdArray \<lparr>shape = [3, 1], elems = map PInt [1, 2, 3]\<rparr>) NoSchema
     = Inr \<lparr>df_table = Some \<lparr>column_names = [''value''], columns = [[PInt 1, PInt 2, PInt 3]]\<rparr>,
            df_schema = None, df_toDF = Some [''value'']\<rparr>"
  by (simp add: createDataFrame_def build_table_def from_ndarray_def cols_of_def spec_ext_def
    default_array_cols_def array_column_def from_arrays_def finish_def result_frame_def
    num_cols_of_def schema_of_def schema_str_of_def upt_rec Let_def)




text \<open>
  C3. Whenever a table was built for a non-empty input and the caller declared a number
  of columns (the number of fields of a struct schema, 1 for an atomic type, the length of
  a list of names) that differs from the number of columns of the table, the call raises
  the length-mismatch \<^verbatim>\<open>ValueError\<close> whose message names the declared count and the
  table's count.
\<close>

theorem column_count_mismatch:
  assumes built: "build_table ex data schema = Inr (tbl, cols)"
    and nonempty: "sized_and_empty data = Inr False"
    and declared: "schema = TypeSchema (StructType fs) \<and> n = length fs
                 \<or> schema = TypeSchema t \<and> is_AtomicType t \<and> n = 1
                 \<or> schema = NamesSchema ns \<and> n = length ns"
    and differs: "n \<noteq> num_columns tbl"
  shows "createDataFrame ex data schema
       = Inl (ValueError (''Length mismatch: Expected axis has '' @ str_nat n
                @ '' elements, new values have '' @ str_nat (num_columns tbl) @ '' elements''))"
proof -
  have d: "data \<noteq> ConnectDataFrame"
    using built by (auto simp: build_table_def)
  have n: "num_cols_of schema = Some n"
    using declared by (cases t) (auto simp: num_cols_of_def)
  show ?thesis
    using d n built nonempty differs
    by (simp add: createDataFrame_def finish_def length_mismatch_def)
qed

theorem column_count_mismatch_witness:
  "createDataFrame spec_ext (PyIterable True [PTuple [PInt 1, PInt 2]])
     (TypeSchema (StructType [(''a'', IntegerType 32, True), (''b'', IntegerType 32, True),
                              (''c'', IntegerType 32, True)]))
   = Inl (ValueError ''Length mismatch: Expected axis has 3 elements, new values have 2 elements'')"
proof -
  let ?fs = "[(''a'', IntegerType 32, True), (''b'', IntegerType 32, True), (''c'', IntegerType 32, True)]"
  let ?tbl = "\<lparr>column_names = [''_1'', ''_2''], columns = [[PInt 1], [PInt 2]]\<rparr>"
  have b: "build_table spec_ext (PyIterable True [PTuple [PInt 1, PInt 2]]) (TypeSchema (StructType ?fs))
             = Inr (?tbl, None)"
    by code_simp
  have e: "sized_and_empty (PyIterable True [PTuple [PInt 1, PInt 2]]) = Inr False"
    by simp
  have d: "TypeSchema (StructType ?fs) = TypeSchema (StructType ?fs) \<and> 3 = length ?fs
             \<or> TypeSchema (StructType ?fs) = TypeSchema NullType \<and> is_AtomicType NullType \<and> (3::nat) = 1
             \<or> TypeSchema (StructType ?fs) = NamesSchema [] \<and> (3::nat) = length ([]::string list)"
    by simp
  have n: "3 \<noteq> num_columns ?tbl"
    by (simp add: num_columns_def)
  have s: "str_nat 3 = ''3''" "str_nat (num_columns ?tbl) = ''2''"
    by (simp_all add: str_nat.simps digit_def num_columns_def)
  from column_count_mismatch[OF b e d n] show ?thesis
    unfolding s by simp
qed

lemma normalize_rows_wrapped:
  "normalize_rows (map (\<lambda>d. PList [d]) (first # rest)) = Inr (map (\<lambda>d. PList [d]) (first # rest))"
  by (simp add: normalize_rows_def)

text \<open>
  C6 (as amended). When the first item is a bare scalar (not a mapping, a sequence, a
  \<^verbatim>\<open>Row\<close> or an object with a \<^verbatim>\<open>__dict__\<close>), every item is wrapped into a one-element
  list and the call behaves exactly as on the explicitly wrapped rows: the wrapped rows
  carry no name, inference is called with the caller's names only, and with no schema the
  resulting data frame is not renamed. The name of the single column is therefore the one
  that inference gives to a one-element positional row.
\<close>

theorem bare_scalars_wrapped:
  assumes "\<not> is_row_like first"
  shows "normalize_rows (first # rest) = Inr (map (\<lambda>d. PList [d]) (first # rest))
       \<and> createDataFrame ex (PyIterable sized (first # rest)) schema
           = createDataFrame ex (PyIterable sized (map (\<lambda>d. PList [d]) (first # rest))) schema
       \<and> (\<forall>df. createDataFrame ex (PyIterable sized (first # rest)) NoSchema = Inr df
             \<longrightarrow> df_toDF df = None \<and> df_schema df = None)"
proof -
  have d: "\<not> is_dict first"
    using assms by (cases first) auto
  have n: "normalize_rows (first # rest) = Inr (map (\<lambda>d. PList [d]) (first # rest))"
    using assms d by (simp add: normalize_rows_def)
  have f: "from_rows ex (first # rest) c s = from_rows ex (map (\<lambda>d. PList [d]) (first # rest)) c s" for c s
    unfolding from_rows_def n normalize_rows_wrapped ..
  have c: "createDataFrame ex (PyIterable sized (first # rest)) schema
           = createDataFrame ex (PyIterable sized (map (\<lambda>d. PList [d]) (first # rest))) schema"
    using f by (simp add: createDataFrame_def build_table_def)
  have t: "df_toDF df = None \<and> df_schema df = None"
    if "createDataFrame ex (PyIterable sized (first # rest)) NoSchema = Inr df" for df
    using that
    by (auto simp: createDataFrame_def build_table_def from_rows_def finish_def num_cols_of_def
          result_frame_def schema_of_def schema_str_of_def cols_of_def split: sum.splits)
  show ?thesis using n c t by blast
qed

theorem bare_scalars_wrapped_witness:
  "normalize_rows [PInt 1, PInt 2, PInt 3] = Inr [PList [PInt 1], PList [PInt 2], PList [PInt 3]]
   \<and> createDataFrame spec_ext (PyIterable True [PInt 1, PInt 2, PInt 3]) NoSchema
       = createDataFrame spec_ext (PyIterable True [PList [PInt 1], PList [PInt 2], PList [PInt 3]]) NoSchema"
proof -
  have a: "\<not> is_row_like (PInt 1)" by simp
  from bare_scalars_wrapped[OF a, of "[PInt 2, PInt 3]" spec_ext True NoSchema] show ?thesis
    by simp
qed

text \<open>The claim as stated fails on \<^verbatim>\<open>[1, 2, 3]\<close> with no schema: the single column is the
  positional \<^verbatim>\<open>_1\<close> of the inferred struct, and nothing names it \<^verbatim>\<open>value\<close>.\<close>

theorem bare_scalars_wrapped_counterexample:
  "createDataFrame spec_ext (PyIterable True [PInt 1, PInt 2, PInt 3]) NoSchema
     = Inr \<lparr>df_table = Some \<lparr>column_names = [''_1''], columns = [[PInt 1, PInt 2, PInt 3]]\<rparr>,
            df_schema = None, df_toDF = None\<rparr>"
  by code_simp

lemma mapM_sort_dict:
  "mapM sort_dict (map PDict ds) = Inr (map (\<lambda>kvs. PDict (sort_key fst kvs)) ds)"
  by (induction ds) auto

lemma map_fst_insort_key:
  "map fst (insort_key fst x xs) = insort (fst x) (map fst xs)"
  by (induction xs) auto

lemma map_fst_sort_key: "map fst (sort_key fst kvs) = sort (map fst kvs)"
  by (induction kvs) (simp_all add: map_fst_insort_key)

lemma sorted_keys_unique:
  fixes k1 k2 :: "(string \<times> pyval) list"
  assumes "distinct (map fst k1)" "distinct (map fst k2)" "set (map fst k1) = set (map fst k2)"
  shows "map fst (sort_key fst k1) = map fst (sort_key fst k2)"
  unfolding map_fst_sort_key
  by (rule sorted_distinct_set_unique) (use assms in \<open>simp_all del: set_map\<close>)

text \<open>
  C2. When the items are dictionaries, every one of them is rebuilt with its items sorted
  by key (lexicographically, by character code) before inference, and inference and
  conversion receive the sorted records; two records with the same set of keys get the
  same key order. Converting \<^verbatim>\<open>[{"b": 1, "a": 2}, {"a": 3, "b": 4}]\<close> gives a schema with
  the fields \<open>a, b\<close> and a table of two rows and two columns with \<open>(2, 1)\<close> and \<open>(3, 4)\<close>
  under \<open>(a, b)\<close>.
\<close>

theorem dict_rows_sorted:
  "normalize_rows (map PDict (d # ds)) = Inr (map (\<lambda>kvs. PDict (sort_key fst kvs)) (d # ds))
   \<and> (\<forall>kvs \<in> set (d # ds). sorted (map fst (sort_key fst kvs)))
   \<and> (\<forall>k1 \<in> set (d # ds). \<forall>k2 \<in> set (d # ds).
         distinct (map fst k1) \<and> distinct (map fst k2) \<and> set (map fst k1) = set (map fst k2)
         \<longrightarrow> map fst (sort_key fst k1) = map fst (sort_key fst k2))
   \<and> from_rows ex (map PDict (d # ds)) names sch =
       (case inferSchemaFromList ex (map (\<lambda>kvs. PDict (sort_key fst kvs)) (d # ds)) names of
          Inl e \<Rightarrow> Inl e
        | Inr inferred \<Rightarrow>
            (case resolve_schema ex inferred sch of
               Inl e \<Rightarrow> Inl e
             | Inr s \<Rightarrow>
                 (case convert ex (map (\<lambda>kvs. PDict (sort_key fst kvs)) (d # ds)) s of
                    Inl e \<Rightarrow> Inl e
                  | Inr tbl \<Rightarrow> Inr (tbl, names))))
   \<and> createDataFrame spec_ext
        (PyIterable True [PDict [(''b'', PInt 1), (''a'', PInt 2)], PDict [(''a'', PInt 3), (''b'', PInt 4)]])
        NoSchema
       = Inr \<lparr>df_table = Some \<lparr>column_names = [''a'', ''b''],
                                columns = [[PInt 2, PInt 3], [PInt 1, PInt 4]]\<rparr>,
              df_schema = None, df_toDF = None\<rparr>
   \<and> inferSchemaFromList spec_ext
        [PDict [(''a'', PInt 2), (''b'', PInt 1)], PDict [(''a'', PInt 3), (''b'', PInt 4)]] None
       = Inr (StructType [(''a'', IntegerType 8, False), (''b'', IntegerType 8, False)])"
proof -
  have n: "normalize_rows (map PDict (d # ds)) = Inr (map (\<lambda>kvs. PDict (sort_key fst kvs)) (d # ds))"
    using mapM_sort_dict[of "d # ds"] by (simp add: normalize_rows_def)
  have f: "from_rows ex (map PDict (d # ds)) names sch =
       (case inferSchemaFromList ex (map (\<lambda>kvs. PDict (sort_key fst kvs)) (d # ds)) names of
          Inl e \<Rightarrow> Inl e
        | Inr inferred \<Rightarrow>
            (case resolve_schema ex inferred sch of
               Inl e \<Rightarrow> Inl e
             | Inr s \<Rightarrow>
                 (case convert ex (map (\<lambda>kvs. PDict (sort_key fst kvs)) (d # ds)) s of
                    Inl e \<Rightarrow> Inl e
                  | Inr tbl \<Rightarrow> Inr (tbl, names))))"
    by (simp only: from_rows_def n sum.case)
  have e1: "createDataFrame spec_ext
        (PyIterable True [PDict [(''b'', PInt 1), (''a'', PInt 2)], PDict [(''a'', PInt 3), (''b'', PInt 4)]])
        NoSchema
       = Inr \<lparr>df_table = Some \<lparr>column_names = [''a'', ''b''],
                                columns = [[PInt 2, PInt 3], [PInt 1, PInt 4]]\<rparr>,
              df_schema = None, df_toDF = None\<rparr>"
    by code_simp
  have e2: "inferSchemaFromList spec_ext
        [PDict [(''a'', PInt 2), (''b'', PInt 1)], PDict [(''a'', PInt 3), (''b'', PInt 4)]] None
       = Inr (StructType [(''a'', IntegerType 8, False), (''b'', IntegerType 8, False)])"
    by code_simp
  have s: "\<forall>kvs \<in> set (d # ds). sorted (map fst (sort_key fst kvs))"
    by simp
  have u: "\<forall>k1 \<in> set (d # ds). \<forall>k2 \<in> set (d # ds).
         distinct (map fst k1) \<and> distinct (map fst k2) \<and> set (map fst k1) = set (map fst k2)
         \<longrightarrow> map fst (sort_key fst k1) = map fst (sort_key fst k2)"
    using sorted_keys_unique by blast
  show ?thesis
    using n s u f e1 e2 by (intro conjI)
qed

theorem dict_rows_sorted_witness:
  "normalize_rows [PDict [(''b'', PInt 1), (''a'', PInt 2)], PDict [(''a'', PInt 3), (''b'', PInt 4)]]
     = Inr [PDict [(''a'', PInt 2), (''b'', PInt 1)], PDict [(''a'', PInt 3), (''b'', PInt 4)]]
   \<and> map fst (sort_key fst [(''b'', PInt 1), (''a'', PInt 2)])
     = map fst (sort_key fst [(''a'', PInt 3), (''b'', PInt 4)])"
proof -
  have s1: "sort_key fst [(''b'', PInt 1), (''a'', PInt 2)] = [(''a'', PInt 2), (''b'', PInt 1)]"
    by code_simp
  have s2: "sort_key fst [(''a'', PInt 3), (''b'', PInt 4)] = [(''a'', PInt 3), (''b'', PInt 4)]"
    by code_simp
  from dict_rows_sorted[of "[(''b'', PInt 1), (''a'', PInt 2)]" "[[(''a'', PInt 3), (''b'', PInt 4)]]"]
  show ?thesis
    unfolding s1 s2 by simp
qed

subsection \<open>The materializer\<close>

lemma mapM_nth: "mapM f xs = Inr ys \<Longrightarrow> r < length xs \<Longrightarrow> f (xs ! r) = Inr (ys ! r)"
proof (induction xs arbitrary: ys r)
  case Nil
  then show ?case by simp
next
  case (Cons x xs)
  then show ?case
    by (cases r) (auto split: sum.splits)
qed

lemma coerce_None: "coerce t PNone = Inr PNone"
  by (cases t) simp_all

lemma materialize_columns_length:
  "materialize_columns rows i fs = Inr cs \<Longrightarrow> length cs = length fs"
  by (induction fs arbitrary: i cs) (auto split: sum.splits)

lemma materialize_columns_nth:
  "materialize_columns rows i fs = Inr cs \<Longrightarrow> j < length fs
     \<Longrightarrow> materialize_column rows (i + j) (fs ! j) = Inr (cs ! j)"
proof (induction fs arbitrary: i cs j)
  case Nil
  then show ?case by simp
next
  case (Cons f fs)
  show ?case
  proof (cases j)
    case 0
    then show ?thesis using Cons.prems by (auto split: sum.splits)
  next
    case (Suc k)
    from Cons.prems obtain c cs' where cs': "materialize_columns rows (Suc i) fs = Inr cs'"
      and c: "cs = c # cs'"
      by (auto split: sum.splits)
    from Cons.IH[OF cs', of k] Cons.prems(2) Suc show ?thesis
      by (simp add: c)
  qed
qed

lemma materialize_shape:
  assumes "materialize rows (StructType fs) = Inr tbl"
  shows "num_columns tbl = length fs" and "column_names tbl = map fst fs"
  using assms
  by (auto simp: materialize_def from_arrays_def num_columns_def
        dest: materialize_columns_length split: sum.splits)

lemma materialize_null:
  assumes m: "materialize rows (StructType fs) = Inr tbl"
    and i: "i < length fs" and r: "r < length rows"
    and v: "row_value (rows ! r) i (fst (fs ! i)) = PNone"
  shows "columns tbl ! i ! r = PNone"
proof -
  from m obtain cs where cs: "materialize_columns rows 0 fs = Inr cs" and t: "columns tbl = cs"
    by (auto simp: materialize_def from_arrays_def split: sum.splits)
  from materialize_columns_nth[OF cs i]
  have c: "materialize_column rows i (fs ! i) = Inr (cs ! i)" by simp
  from mapM_nth[OF c[unfolded materialize_column_def] r]
  have "coerce (fst (snd (fs ! i))) (row_value (rows ! r) i (fst (fs ! i))) = Inr (cs ! i ! r)" .
  then show ?thesis
    unfolding v t by (simp add: coerce_None)
qed

text \<open>
  C1 (as amended). For a non-empty collection whose inferred schema still has a null
  type: without a struct schema from the caller the call raises the \<^verbatim>\<open>ValueError\<close> asking
  for one; with a struct schema, that schema is the one the rows are materialized with
  and the one attached to the result, the call succeeds exactly when the materialization
  under it succeeds (and fails with the materializer's error otherwise), and every
  \<^verbatim>\<open>None\<close> value is a null in the column of its field, whatever the nullability of the
  field.
\<close>

theorem undetermined_schema:
  assumes rows: "normalize_rows items = Inr rows"
    and inf: "inferSchemaFromList ex rows (cols_of schema) = Inr inferred"
    and nul: "has_nulltype ex inferred"
    and conv: "convert ex = materialize"
  shows "((\<forall>fs. schema \<noteq> TypeSchema (StructType fs)) \<longrightarrow>
            createDataFrame ex (PyIterable sized items) schema
              = Inl (ValueError (''Some of types cannot be determined after inferring, ''
                       @ ''a StructType Schema is required in this case'')))
       \<and> (\<forall>fs. schema = TypeSchema (StructType fs) \<longrightarrow>
            createDataFrame ex (PyIterable sized items) schema
              = (case materialize rows (StructType fs) of
                   Inl e \<Rightarrow> Inl e
                 | Inr tbl \<Rightarrow> Inr \<lparr>df_table = Some tbl,
                                    df_schema = Some (JsonSchema (StructType fs)),
                                    df_toDF = None\<rparr>))
       \<and> (\<forall>fs tbl. materialize rows (StructType fs) = Inr tbl \<longrightarrow>
            (\<forall>i < length fs. \<forall>r < length rows.
               row_value (rows ! r) i (fst (fs ! i)) = PNone \<longrightarrow> columns tbl ! i ! r = PNone))"
proof -
  have ne: "items \<noteq> []"
    using rows by (auto simp: normalize_rows_def)
  have e: "(sized \<and> items = []) = False"
    using ne by simp
  have 1: "createDataFrame ex (PyIterable sized items) schema
              = Inl (ValueError (''Some of types cannot be determined after inferring, ''
                       @ ''a StructType Schema is required in this case''))"
    if "\<forall>fs. schema \<noteq> TypeSchema (StructType fs)"
  proof -
    have "resolve_schema ex inferred (schema_of schema)
        = Inl (ValueError (''Some of types cannot be determined after inferring, ''
                       @ ''a StructType Schema is required in this case''))"
    proof (cases "schema_of schema")
      case None
      then show ?thesis using nul by (simp add: resolve_schema_def)
    next
      case (Some s)
      then have "\<not> is_StructType s"
        using that by (cases s) (auto simp: schema_of_def split: schema_arg.splits if_splits)
      then show ?thesis using nul Some by (simp add: resolve_schema_def)
    qed
    then show ?thesis
      using rows inf by (simp add: createDataFrame_def build_table_def from_rows_def e)
  qed
  have 2: "createDataFrame ex (PyIterable sized items) schema
              = (case materialize rows (StructType fs) of
                   Inl e \<Rightarrow> Inl e
                 | Inr tbl \<Rightarrow> Inr \<lparr>df_table = Some tbl,
                                    df_schema = Some (JsonSchema (StructType fs)),
                                    df_toDF = None\<rparr>)"
    if s: "schema = TypeSchema (StructType fs)" for fs
  proof -
    have so: "schema_of schema = Some (StructType fs)"
      by (simp add: s schema_of_def)
    have rs: "resolve_schema ex inferred (schema_of schema) = Inr (StructType fs)"
      using nul by (simp add: so resolve_schema_def)
    have b: "build_table ex (PyIterable sized items) schema
        = (case materialize rows (StructType fs) of Inl e \<Rightarrow> Inl e | Inr tbl \<Rightarrow> Inr (tbl, None))"
      using rows inf rs conv by (simp add: build_table_def from_rows_def s cols_of_def)
    show ?thesis
    proof (cases "materialize rows (StructType fs)")
      case (Inl err)
      then show ?thesis using b by (simp add: createDataFrame_def e)
    next
      case (Inr tbl)
      have n: "num_cols_of schema = Some (num_columns tbl)"
        using materialize_shape(1)[OF Inr] by (simp add: s num_cols_of_def)
      show ?thesis
        using b Inr n so by (simp add: createDataFrame_def finish_def result_frame_def e)
    qed
  qed
  have 3: "columns tbl ! i ! r = PNone"
    if "materialize rows (StructType fs) = Inr tbl" "i < length fs" "r < length rows"
       "row_value (rows ! r) i (fst (fs ! i)) = PNone" for fs tbl i r
    using that by (rule materialize_null)
  show ?thesis
    using 1 2 3 by blast
qed

theorem undetermined_schema_witness:
  "createDataFrame spec_ext (PyIterable True [PTuple [PStr ''Alice'', PNone, PFloat (801 / 10)]]) NoSchema
     = Inl (ValueError (''Some of types cannot be determined after inferring, ''
              @ ''a StructType Schema is required in this case''))
   \<and> createDataFrame spec_ext (PyIterable True [PTuple [PStr ''Alice'', PNone, PFloat (801 / 10)]])
       (TypeSchema (StructType [(''name'', StringType, False), (''age'', IntegerType 32, False),
                                (''score'', FloatType 64, False)]))
     = Inr \<lparr>df_table = Some \<lparr>column_names = [''name'', ''age'', ''score''],
                              columns = [[PStr ''Alice''], [PNone], [PFloat (801 / 10)]]\<rparr>,
            df_schema = Some (JsonSchema (StructType [(''name'', StringType, False),
                          (''age'', IntegerType 32, False), (''score'', FloatType 64, False)])),
            df_toDF = None\<rparr>"
proof -
  let ?items = "[PTuple [PStr ''Alice'', PNone, PFloat (801 / 10)]]"
  let ?fs = "[(''name'', StringType, False), (''age'', IntegerType 32, False), (''score'', FloatType 64, False)]"
  let ?inferred = "StructType [(''_1'', StringType, False), (''_2'', NullType, True), (''_3'', FloatType 64, False)]"
  have rows: "normalize_rows ?items = Inr ?items"
    by (simp add: normalize_rows_def)
  have inf: "inferSchemaFromList spec_ext ?items (cols_of schema) = Inr ?inferred"
    if "schema = NoSchema \<or> schema = TypeSchema (StructType ?fs)" for schema
    using that
    by (auto simp: cols_of_def inferSchemaFromList_def spec_ext_def positional_fields_def
          positional_name_def str_nat.simps digit_def upt_rec)
  have nul: "has_nulltype spec_ext ?inferred"
    by (simp add: spec_ext_def)
  have conv: "convert spec_ext = materialize"
    by (simp add: spec_ext_def)
  have m: "materialize ?items (StructType ?fs)
      = Inr \<lparr>column_names = [''name'', ''age'', ''score''],
              columns = [[PStr ''Alice''], [PNone], [PFloat (801 / 10)]]\<rparr>"
    by (simp add: materialize_def materialize_column_def from_arrays_def)
  from undetermined_schema[OF rows inf nul conv, of NoSchema True]
    undetermined_schema[OF rows inf nul conv, of "TypeSchema (StructType ?fs)" True]
  show ?thesis
    by (simp add: m)
qed

text \<open>The claim as stated fails on \<^verbatim>\<open>[("Alice", None)]\<close> with a struct schema of two integer
  fields: the inferred schema has a null type, a struct schema is supplied, and the
  conversion does not succeed, the string being no integer.\<close>

theorem undetermined_schema_counterexample:
  "createDataFrame spec_ext (PyIterable True [PTuple [PStr ''Alice'', PNone]])
       (TypeSchema (StructType [(''a'', IntegerType 32, False), (''b'', IntegerType 32, False)]))
     = Inl (CoercionError ''value cannot be cast to the type of its field'')
   \<and> inferSchemaFromList spec_ext [PTuple [PStr ''Alice'', PNone]] None
     = Inr (StructType [(''_1'', StringType, False), (''_2'', NullType, True)])
   \<and> has_nulltype spec_ext (StructType [(''_1'', StringType, False), (''_2'', NullType, True)])"
  by code_simp

section \<open>The merge of two types\<close>

lemma merge_Null_right: "merge a NullType = a"
  by (cases a) auto

lemma merge_eq_Null: "merge a b = NullType \<longleftrightarrow> a = NullType \<and> b = NullType"
  by (cases a; cases b) auto

lemma merge_Conflict_right: "merge a Conflict = Conflict"
  by (cases a) auto

lemma merge_Struct: "merge (StructType fs) (StructType gs) = StructType (merge_fields fs gs)"
  by (simp add: merge_fields_def merge_field_def absent_field_def)

lemma fst_merge_field [simp]: "fst (merge_field gs f) = fst f"
  by (simp add: merge_field_def split: option.splits)

lemma fst_absent_field [simp]: "fst (absent_field g) = fst g"
  by (simp add: absent_field_def)

lemma names_merge_fields:
  "set (map fst (merge_fields fs gs)) = set (map fst fs) \<union> set (map fst gs)"
  by (auto simp: merge_fields_def image_iff)

lemma map_of_merged:
  "map_of (map (merge_field hs) gs) n =
     map_option (\<lambda>g. snd (merge_field hs (n, g))) (map_of gs n)"
  by (induction gs) (auto simp: merge_field_def split: option.splits)

lemma map_of_absent:
  "map_of (map absent_field (filter (\<lambda>g. fst g \<notin> S) hs)) n =
     (if n \<in> S then None else map_option (\<lambda>h. (fst h, True)) (map_of hs n))"
  by (induction hs) (auto simp: absent_field_def)

lemma map_of_merge_fields:
  "map_of (merge_fields gs hs) n =
     (case map_of gs n of
        Some g \<Rightarrow> Some (snd (merge_field hs (n, g)))
      | None \<Rightarrow> map_option (\<lambda>h. (fst h, True)) (map_of hs n))"
proof (cases "map_of gs n")
  case None
  then have "n \<notin> set (map fst gs)"
    by (simp add: map_of_eq_None_iff)
  with None show ?thesis
    by (simp add: merge_fields_def map_add_def map_of_merged map_of_absent)
next
  case (Some g)
  then show ?thesis
    by (simp add: merge_fields_def map_add_def map_of_merged)
qed

lemma absent_merge_field: "merge_field hs (absent_field g) = absent_field (merge_field hs g)"
  by (cases g) (auto simp: merge_field_def absent_field_def split: option.splits)

lemma absent_absent: "absent_field (absent_field g) = absent_field g"
  by (simp add: absent_field_def)

lemma merge_field_assoc:
  assumes "\<And>b c. merge (merge (fst (snd f)) b) c = merge (fst (snd f)) (merge b c)"
  shows "merge_field hs (merge_field gs f) = merge_field (merge_fields gs hs) f"
  using assms
  by (cases f) (auto simp: merge_field_def map_of_merge_fields merge_eq_Null split: option.splits)

lemma merge_fields_assoc:
  assumes "\<And>f b c. f \<in> set fs \<Longrightarrow> merge (merge (fst (snd f)) b) c = merge (fst (snd f)) (merge b c)"
  shows "merge_fields (merge_fields fs gs) hs = merge_fields fs (merge_fields gs hs)"
proof -
  define P :: "StructField \<Rightarrow> bool" where "P = (\<lambda>g. fst g \<notin> set (map fst fs))"
  define Q :: "StructField \<Rightarrow> bool" where "Q = (\<lambda>g. fst g \<notin> set (map fst gs))"
  have P_merge: "P (merge_field hs g) = P g" for g
    by (simp add: P_def)
  have P_absent: "P (absent_field g) = P g" for g
    by (simp add: P_def)
  have 1: "map (merge_field hs) (map (merge_field gs) fs) = map (merge_field (merge_fields gs hs)) fs"
    using assms by (simp add: merge_field_assoc)
  have 2: "map (merge_field hs) (map absent_field (filter P gs))
         = map absent_field (filter P (map (merge_field hs) gs))"
    by (simp add: filter_map comp_def absent_merge_field P_merge)
  have f3: "filter (\<lambda>g. fst g \<notin> set (map fst (merge_fields fs gs))) hs = filter P (filter Q hs)"
    unfolding filter_filter names_merge_fields P_def Q_def by (rule filter_cong) auto
  have 3: "map absent_field (filter (\<lambda>g. fst g \<notin> set (map fst (merge_fields fs gs))) hs)
         = map absent_field (filter P (map absent_field (filter Q hs)))"
    unfolding f3 by (simp add: filter_map comp_def absent_absent P_absent)
  have fg: "merge_fields fs gs = map (merge_field gs) fs @ map absent_field (filter P gs)"
    by (simp add: merge_fields_def P_def)
  have gh: "merge_fields gs hs = map (merge_field hs) gs @ map absent_field (filter Q hs)"
    by (simp add: merge_fields_def Q_def)
  have L: "map (merge_field hs) (merge_fields fs gs)
         = map (merge_field (merge_fields gs hs)) fs
           @ map absent_field (filter P (map (merge_field hs) gs))"
    by (simp only: fg map_append 1 2)
  have R: "map absent_field (filter P (merge_fields gs hs))
         = map absent_field (filter P (map (merge_field hs) gs))
           @ map absent_field (filter P (map absent_field (filter Q hs)))"
    by (simp only: gh filter_append map_append)
  have "merge_fields (merge_fields fs gs) hs
      = map (merge_field hs) (merge_fields fs gs)
        @ map absent_field (filter (\<lambda>g. fst g \<notin> set (map fst (merge_fields fs gs))) hs)"
    by (rule merge_fields_def)
  also have "\<dots> = map (merge_field (merge_fields gs hs)) fs
        @ map absent_field (filter P (merge_fields gs hs))"
    by (simp only: L 3 R append_assoc)
  also have "\<dots> = merge_fields fs (merge_fields gs hs)"
    by (simp only: merge_fields_def P_def)
  finally show ?thesis .
qed

lemma merge_assoc_struct:
  assumes IH: "\<And>f b c. f \<in> set fs \<Longrightarrow> merge (merge (fst (snd f)) b) c = merge (fst (snd f)) (merge b c)"
  shows "merge (merge (StructType fs) b) c = merge (StructType fs) (merge b c)"
proof (cases b)
  case b: (StructType gs)
  show ?thesis
  proof (cases c)
    case c: (StructType hs)
    show ?thesis
      unfolding b c merge_Struct
      by (simp only: merge_fields_assoc[OF IH])
  qed (simp_all add: b)
qed (cases c; simp)+

lemma merge_assoc: "merge (merge a b) c = merge a (merge b c)"
proof (induction a arbitrary: b c)
  case (StructType fs)
  have IH: "merge (merge (fst (snd f)) b) c = merge (fst (snd f)) (merge b c)"
    if "f \<in> set fs" for f b c
  proof -
    obtain n t nl where f: "f = (n, t, nl)" by (cases f) auto
    show ?thesis
      using StructType.IH[of f "(t, nl)" t b c] that by (simp add: f)
  qed
  show ?case by (rule merge_assoc_struct[OF IH])
next
  case (ArrayType a)
  show ?case by (cases b; cases c) (simp_all add: ArrayType.IH)
next
  case NullType show ?case by simp
next
  case BooleanType show ?case by (cases b; cases c) simp_all
next
  case (IntegerType w) show ?case by (cases b; cases c) simp_all
next
  case (FloatType w) show ?case by (cases b; cases c) simp_all
next
  case StringType show ?case by (cases b; cases c) simp_all
next
  case BinaryType show ?case by (cases b; cases c) simp_all
next
  case (TimestampType tz) show ?case by (cases b; cases c) simp_all
next
  case Conflict show ?case by (cases b; cases c) simp_all
qed

lemma reduce_merge_spec:
  "reduce_merge spec_ext names acc rows
     = Inr (foldl merge acc (map (\<lambda>r. infer_row r names) rows))"
  by (induction rows arbitrary: acc) (simp_all add: spec_ext_def)

text \<open>
  C9. The merge is associative, for any three types, and the schema of a non-empty list
  of rows is the left fold of the merge over the types inferred row by row, starting from
  the type of the first row.
\<close>

theorem merge_associative_left_fold:
  "merge (merge a b) c = merge a (merge b c)
   \<and> inferSchemaFromList spec_ext (row # rows) names
       = Inr (foldl merge (infer_row row names) (map (\<lambda>r. infer_row r names) rows))"
proof
  show "merge (merge a b) c = merge a (merge b c)"
    by (rule merge_assoc)
  have "infer_schema spec_ext row names = Inr (infer_row row names)"
    by (simp add: spec_ext_def)
  then show "inferSchemaFromList spec_ext (row # rows) names
       = Inr (foldl merge (infer_row row names) (map (\<lambda>r. infer_row r names) rows))"
    by (simp add: inferSchemaFromList_def reduce_merge_spec)
qed

end
